theory Spec2Isabelle
  imports Main
begin

section \<open>Strings of the generator\<close>

text \<open>
  The generator \<^verbatim>\<open>gen_templates.py\<close> works on Python text. Text is modelled as
  \<^typ>\<open>string\<close>, a list of characters. The three characters the escaping transform
  looks for, and the letter it introduces, get names of their own.
\<close>

definition bslash :: char where
  "bslash = CHR 0x5C"

definition dquote :: char where
  "dquote = CHR 0x22"

definition newline :: char where
  "newline = CHR 0x0A"

definition letter_n :: char where
  "letter_n = CHR ''n''"

text \<open>
  A character of the model is a byte, and a text stands for itself in UTF-8. A file name
  is the bytes the directory holds: where they are not UTF-8, \<^verbatim>\<open>os.listdir\<close> returns
  lone surrogates in their place, which name the same file again when the path is
  opened, and which no UTF-8 writer accepts. \<open>utf8_valid\<close> says that a byte string is
  UTF-8 (no overlong form, no surrogate, nothing above U+10FFFF): the texts that
  \<^verbatim>\<open>read\<close> can return and that \<^verbatim>\<open>write\<close> can encode.
\<close>

definition continuation :: "char \<Rightarrow> bool" where
  "continuation c = (0x80 \<le> (of_char c :: nat) \<and> (of_char c :: nat) \<le> 0xBF)"

definition second_of_three :: "char \<Rightarrow> char \<Rightarrow> bool" where
  "second_of_three c c1 =
     (if (of_char c :: nat) = 0xE0 then 0xA0 \<le> (of_char c1 :: nat) \<and> (of_char c1 :: nat) \<le> 0xBF
      else if (of_char c :: nat) = 0xED then 0x80 \<le> (of_char c1 :: nat) \<and> (of_char c1 :: nat) \<le> 0x9F
      else continuation c1)"

definition second_of_four :: "char \<Rightarrow> char \<Rightarrow> bool" where
  "second_of_four c c1 =
     (if (of_char c :: nat) = 0xF0 then 0x90 \<le> (of_char c1 :: nat) \<and> (of_char c1 :: nat) \<le> 0xBF
      else if (of_char c :: nat) = 0xF4 then 0x80 \<le> (of_char c1 :: nat) \<and> (of_char c1 :: nat) \<le> 0x8F
      else continuation c1)"

fun utf8_valid :: "string \<Rightarrow> bool" where
  "utf8_valid [] = True"
| "utf8_valid (c # r) =
     (if (of_char c :: nat) < 0x80 then utf8_valid r
      else if 0xC2 \<le> (of_char c :: nat) \<and> (of_char c :: nat) \<le> 0xDF then
        (case r of
           c1 # r1 \<Rightarrow> continuation c1 \<and> utf8_valid r1
         | _ \<Rightarrow> False)
      else if 0xE0 \<le> (of_char c :: nat) \<and> (of_char c :: nat) \<le> 0xEF then
        (case r of
           c1 # c2 # r2 \<Rightarrow> second_of_three c c1 \<and> continuation c2 \<and> utf8_valid r2
         | _ \<Rightarrow> False)
      else if 0xF0 \<le> (of_char c :: nat) \<and> (of_char c :: nat) \<le> 0xF4 then
        (case r of
           c1 # c2 # c3 # r3 \<Rightarrow>
             second_of_four c c1 \<and> continuation c2 \<and> continuation c3 \<and> utf8_valid r3
         | _ \<Rightarrow> False)
      else False)"

subsection \<open>\<^verbatim>\<open>str.replace\<close>\<close>

text \<open>
  Python's \<^verbatim>\<open>s.replace(old, new)\<close> scans \<^verbatim>\<open>s\<close> from the left and replaces every
  non-overlapping occurrence of \<^verbatim>\<open>old\<close> by \<^verbatim>\<open>new\<close>; the text that was put in is
  not scanned again. With an empty \<^verbatim>\<open>old\<close> it puts \<^verbatim>\<open>new\<close> before every character
  and at the end.
\<close>

function str_replace :: "string \<Rightarrow> string \<Rightarrow> string \<Rightarrow> string" where
  "str_replace old new s =
     (if old = [] then new @ concat (map (\<lambda>c. c # new) s)
      else if s = [] then []
      else if take (length old) s = old
        then new @ str_replace old new (drop (length old) s)
      else hd s # str_replace old new (tl s))"
  by pat_completeness auto
termination
  by (relation "measure (\<lambda>(old, new, s). length s)") auto

declare str_replace.simps [simp del]

subsection \<open>\<^verbatim>\<open>escape_content\<close>\<close>

text \<open>
  \<^verbatim>\<open>
  def escape_content(content):
      return (
          content.replace("\\", "\\\\")
                 .replace("\"", "\\\"")
                 .replace("\n", "\\n")
      )
  \<close>
\<close>

definition escape_content :: "string \<Rightarrow> string" where
  "escape_content content =
     str_replace [newline] [bslash, letter_n]
       (str_replace [dquote] [bslash, dquote]
         (str_replace [bslash] [bslash, bslash] content))"

text \<open>
  What the transform does to one character, seen from the outside: the reference the
  three chained replacements are compared with.
\<close>

definition escape_char :: "char \<Rightarrow> string" where
  "escape_char c =
     (if c = bslash then [bslash, bslash]
      else if c = dquote then [bslash, dquote]
      else if c = newline then [bslash, letter_n]
      else [c])"

text \<open>
  The same three replacements with the backslash step moved to the end, to show what the
  order of the source protects against.
\<close>

definition escape_backslash_last :: "string \<Rightarrow> string" where
  "escape_backslash_last content =
     str_replace [bslash] [bslash, bslash]
       (str_replace [newline] [bslash, letter_n]
         (str_replace [dquote] [bslash, dquote] content))"

text \<open>
  Modelled from the spec: the inverse transform \<^verbatim>\<open>unescape\<close>, which the repository does
  not contain. It is the reading of a string literal's body: a backslash followed by a
  backslash, a double quote or the letter n stands for a backslash, a double quote or a
  newline; every other character stands for itself.
\<close>

fun unescape :: "string \<Rightarrow> string" where
  "unescape [] = []"
| "unescape [c] = [c]"
| "unescape (c # d # r) =
     (if c = bslash \<and> d = bslash then bslash # unescape r
      else if c = bslash \<and> d = dquote then dquote # unescape r
      else if c = bslash \<and> d = letter_n then newline # unescape r
      else c # unescape (d # r))"

section \<open>The generator\<close>

subsection \<open>Constants and library calls\<close>

definition TEMPLATE_DIR :: string where
  "TEMPLATE_DIR = ''src/templates''"

definition OUTPUT_FILE :: string where
  "OUTPUT_FILE = ''src/template.mbt''"

text \<open>\<^verbatim>\<open>s.endswith(suffix)\<close>.\<close>

definition endswith :: "string \<Rightarrow> string \<Rightarrow> bool" where
  "endswith s suffix =
     (length suffix \<le> length s \<and> drop (length s - length suffix) s = suffix)"

text \<open>
  \<^verbatim>\<open>os.path.join(a, b)\<close> of the POSIX path module: an absolute \<^verbatim>\<open>b\<close> replaces
  \<^verbatim>\<open>a\<close>; otherwise the two are joined by one slash, which is left out when \<^verbatim>\<open>a\<close> is
  empty or ends with a slash already.
\<close>

definition path_join :: "string \<Rightarrow> string \<Rightarrow> string" where
  "path_join a b =
     (if take 1 b = ''/'' then b
      else if a = [] \<or> endswith a ''/'' then a @ b
      else a @ ''/'' @ b)"

text \<open>\<^verbatim>\<open>str(n)\<close> for the length of a list, as the f-string prints it.\<close>

definition digit_char :: "nat \<Rightarrow> char" where
  "digit_char d = ''0123456789'' ! d"

function str_nat :: "nat \<Rightarrow> string" where
  "str_nat n =
     (if n < 10 then [digit_char n] else str_nat (n div 10) @ [digit_char (n mod 10)])"
  by pat_completeness auto
termination
  by (relation "measure id") auto

declare str_nat.simps [simp del]

subsection \<open>The world the script runs in\<close>

text \<open>
  The script reads the file system and writes one file and the standard output. The
  world holds what it can observe: whether \<^verbatim>\<open>os.path.exists(TEMPLATE_DIR)\<close>, what
  \<^verbatim>\<open>os.listdir(TEMPLATE_DIR)\<close> returns (in the order it returns it), the text files
  by path (the text that \<^verbatim>\<open>read\<close> returns, which is UTF-8 since it was decoded as
  such), and the lines printed so far. A path with no entry in \<open>files\<close> cannot be
  opened and read as UTF-8 text, a file whose bytes are not UTF-8 among them:
  \<^verbatim>\<open>open\<close> or \<^verbatim>\<open>read\<close> raises there. The output file lives in the same store, so a run that
  wrote it can be followed by another run. Listing the directory and opening the output
  file for writing are taken to succeed; a \<^verbatim>\<open>write\<close> to the open file raises when its
  text cannot be encoded.
\<close>

record world =
  dir_exists :: bool
  dir_listing :: "string list"
  files :: "string \<rightharpoonup> string"
  stdout :: "string list"

datatype error = FileReadError string | UnicodeEncodeError string

datatype outcome = Returned | Raised error

subsection \<open>The text pieces \<^verbatim>\<open>main\<close> writes\<close>

definition header_text :: string where
  "header_text = ''pub fn load_template(name: String) -> String!JinjaError {'' @ [newline]"

definition match_text :: string where
  "match_text = ''  match name {'' @ [newline]"

definition fallback_text :: string where
  "fallback_text =
     ''    _ => raise RenderError('' @ [dquote] @ ''Template not found: '' @ [dquote]
       @ '' + name)'' @ [newline]"

definition close_match_text :: string where
  "close_match_text = ''  }'' @ [newline]"

definition close_fn_text :: string where
  "close_fn_text = ''}'' @ [newline]"

text \<open>The f-string \<^verbatim>\<open>f'    "{fname}" => return "{content}"'\<close>.\<close>

definition entry_line :: "string \<Rightarrow> string \<Rightarrow> string" where
  "entry_line fname content =
     ''    '' @ [dquote] @ fname @ [dquote] @ '' => return '' @ [dquote] @ content @ [dquote]"

definition not_found_message :: string where
  "not_found_message = '' Folder '' @ [CHR 0x27] @ TEMPLATE_DIR @ [CHR 0x27] @ '' not found.''"

definition generated_message :: "nat \<Rightarrow> string" where
  "generated_message n =
     '' Generated '' @ OUTPUT_FILE @ '' with '' @ str_nat n @ '' templates.''"

subsection \<open>\<^verbatim>\<open>main\<close>\<close>

text \<open>
  The first loop of \<^verbatim>\<open>main\<close>:
  \<^verbatim>\<open>
  entries = []
  for fname in os.listdir(TEMPLATE_DIR):
      if fname.endswith(".html"):
          path = os.path.join(TEMPLATE_DIR, fname)
          with open(path, "r", encoding="utf-8") as f:
              raw = f.read()
              content = escape_content(raw)
              entries.append(f'    "{fname}" => return "{content}"')
  \<close>
  The third argument is the list \<^verbatim>\<open>entries\<close> built so far. A file that cannot be read
  raises, and the exception leaves the loop and \<^verbatim>\<open>main\<close>.
\<close>

fun read_entries :: "(string \<rightharpoonup> string) \<Rightarrow> string list \<Rightarrow> string list \<Rightarrow> error + string list" where
  "read_entries fs [] entries = Inr entries"
| "read_entries fs (fname # rest) entries =
     (if endswith fname ''.html'' then
        (let path = path_join TEMPLATE_DIR fname in
         case fs path of
           None \<Rightarrow> Inl (FileReadError path)
         | Some raw \<Rightarrow>
             (let content = escape_content raw in
              read_entries fs rest (entries @ [entry_line fname content])))
      else read_entries fs rest entries)"

text \<open>
  \<^verbatim>\<open>out.write(s)\<close> on the file opened with \<^verbatim>\<open>encoding="utf-8"\<close>: the text is encoded
  at once. Text that cannot be encoded raises \<^verbatim>\<open>UnicodeEncodeError\<close> and nothing of it
  reaches the file; what was written before stays. The result is the exception, if any,
  and the content of the file.
\<close>

definition out_write :: "string \<Rightarrow> string \<Rightarrow> error option \<times> string" where
  "out_write out s =
     (if utf8_valid s then (None, out @ s) else (Some (UnicodeEncodeError s), out))"

text \<open>The next statement runs only when the one before did not raise.\<close>

definition and_then ::
  "error option \<times> string \<Rightarrow> (string \<Rightarrow> error option \<times> string) \<Rightarrow> error option \<times> string" where
  "and_then r k = (case r of (None, out) \<Rightarrow> k out | (Some e, out) \<Rightarrow> (Some e, out))"

text \<open>
  The second loop, \<^verbatim>\<open>for line in entries: out.write(line + "\n")\<close>; the first argument
  is what has been written to the file so far.
\<close>

fun write_entries :: "string \<Rightarrow> string list \<Rightarrow> error option \<times> string" where
  "write_entries out [] = (None, out)"
| "write_entries out (line # rest) =
     and_then (out_write out (line @ [newline])) (\<lambda>out. write_entries out rest)"

text \<open>
  The block under \<^verbatim>\<open>with open(OUTPUT_FILE, "w", encoding="utf-8") as out\<close>: opening
  empties the file and every \<^verbatim>\<open>out.write\<close> appends. When a write raises, the block is
  left, the file is closed with what it holds, and the exception goes on.
\<close>

definition write_output :: "string list \<Rightarrow> error option \<times> string" where
  "write_output entries =
     and_then (out_write [] header_text) (\<lambda>out.
     and_then (out_write out match_text) (\<lambda>out.
     and_then (write_entries out entries) (\<lambda>out.
     and_then (out_write out fallback_text) (\<lambda>out.
     and_then (out_write out close_match_text) (\<lambda>out.
     out_write out close_fn_text)))))"

text \<open>
  \<^verbatim>\<open>main\<close>. An exception of the first loop leaves the world as it was; one of the
  writes leaves the output file with the part that was written, and the last
  \<^verbatim>\<open>print\<close> is not reached.
\<close>

definition main :: "world \<Rightarrow> outcome \<times> world" where
  "main w =
     (if \<not> dir_exists w then
        (Returned, w\<lparr>stdout := stdout w @ [not_found_message]\<rparr>)
      else
        case read_entries (files w) (dir_listing w) [] of
          Inl e \<Rightarrow> (Raised e, w)
        | Inr entries \<Rightarrow>
            (case write_output entries of
               (Some e, out) \<Rightarrow> (Raised e, w\<lparr>files := (files w)(OUTPUT_FILE \<mapsto> out)\<rparr>)
             | (None, out) \<Rightarrow>
                 (Returned,
                  w\<lparr>files := (files w)(OUTPUT_FILE \<mapsto> out),
                    stdout := stdout w @ [generated_message (length entries)]\<rparr>)))"

text \<open>
  The text of the output file after a run in which every write went through, for the
  entry lines \<open>entries\<close>.
\<close>

definition generated_text :: "string list \<Rightarrow> string" where
  "generated_text entries =
     header_text @ match_text @ concat (map (\<lambda>line. line @ [newline]) entries)
       @ fallback_text @ close_match_text @ close_fn_text"

section \<open>Reading the generated text\<close>

text \<open>
  Modelled from the spec: the generated lookup function. The script only writes text;
  what that text means is decided by the language it is written in, which is not part of
  the repository. The spec describes the text as a function header, an open match block,
  one arm per file that matches on the literal file name and returns the content as a
  quoted string literal, a fallback arm, and the closing of the block and the function;
  a call returns the content of the first arm whose name equals the argument, and the
  fallback signals a not-found error that carries the argument. The reader below accepts
  exactly that shape, line by line, and reads a string literal with the escapes the spec
  names.
\<close>

fun split_lines :: "string \<Rightarrow> string list" where
  "split_lines [] = [[]]"
| "split_lines (c # cs) =
     (if c = newline then [] # split_lines cs
      else (case split_lines cs of
              [] \<Rightarrow> [[c]]
            | l # ls \<Rightarrow> (c # l) # ls))"

definition strip_prefix :: "string \<Rightarrow> string \<Rightarrow> string option" where
  "strip_prefix p s = (if take (length p) s = p then Some (drop (length p) s) else None)"

text \<open>
  \<open>read_literal\<close> starts behind the opening quote and returns the value of the literal
  and the text behind its closing quote. A quote ends the literal; a backslash must be
  followed by a backslash, a quote or the letter n.
\<close>

fun read_literal :: "string \<Rightarrow> (string \<times> string) option" where
  "read_literal [] = None"
| "read_literal (c # cs) =
     (if c = dquote then Some ([], cs)
      else if c = bslash then
        (case cs of
           [] \<Rightarrow> None
         | d # ds \<Rightarrow>
             (if d = bslash \<or> d = dquote \<or> d = letter_n then
                (case read_literal ds of
                   None \<Rightarrow> None
                 | Some (v, r) \<Rightarrow> Some ((if d = letter_n then newline else d) # v, r))
              else None))
      else
        (case read_literal cs of
           None \<Rightarrow> None
         | Some (v, r) \<Rightarrow> Some (c # v, r)))"

definition read_arm :: "string \<Rightarrow> (string \<times> string) option" where
  "read_arm line =
     (case strip_prefix (''    '' @ [dquote]) line of
        None \<Rightarrow> None
      | Some r1 \<Rightarrow>
          (case read_literal r1 of
             None \<Rightarrow> None
           | Some (name, r2) \<Rightarrow>
               (case strip_prefix ('' => return '' @ [dquote]) r2 of
                  None \<Rightarrow> None
                | Some r3 \<Rightarrow>
                    (case read_literal r3 of
                       None \<Rightarrow> None
                     | Some (content, r4) \<Rightarrow>
                         if r4 = [] then Some (name, content) else None))))"

text \<open>The lines that close the text, each without its newline, and the empty rest.\<close>

definition closing_lines :: "string list" where
  "closing_lines = [butlast fallback_text, butlast close_match_text, butlast close_fn_text, []]"

definition read_function :: "string \<Rightarrow> (string \<times> string) list option" where
  "read_function text =
     (case split_lines text of
        h # m # rest \<Rightarrow>
          (if h = butlast header_text \<and> m = butlast match_text
              \<and> length closing_lines \<le> length rest
              \<and> drop (length rest - length closing_lines) rest = closing_lines
           then those (map read_arm (take (length rest - length closing_lines) rest))
           else None)
      | _ \<Rightarrow> None)"

datatype jinja_error = RenderError string

fun run_match :: "(string \<times> string) list \<Rightarrow> string \<Rightarrow> jinja_error + string" where
  "run_match [] name = Inl (RenderError (''Template not found: '' @ name))"
| "run_match ((n, content) # arms) name =
     (if name = n then Inr content else run_match arms name)"

text \<open>
  \<open>load_template text name\<close> is the call of the function that \<open>text\<close> defines;
  \<open>None\<close> when \<open>text\<close> does not define one.
\<close>

definition load_template :: "string \<Rightarrow> string \<Rightarrow> (jinja_error + string) option" where
  "load_template text name =
     (case read_function text of
        None \<Rightarrow> None
      | Some arms \<Rightarrow> Some (run_match arms name))"

text \<open>
  A file name that can stand between double quotes as it is: it holds no double quote, no
  backslash and no newline.
\<close>

definition plain_name :: "string \<Rightarrow> bool" where
  "plain_name f = (dquote \<notin> set f \<and> bslash \<notin> set f \<and> newline \<notin> set f)"

section \<open>Example runs\<close>

text \<open>
  Worlds for the concrete runs below: no template directory and an output file from an
  earlier run; a template beside a file of another kind, and the same directory at a
  later time, with an output file and a line printed already; a directory without
  templates; a template that cannot be read, again with an earlier output file.
\<close>

definition world_missing :: world where
  "world_missing =
     \<lparr>dir_exists = False, dir_listing = [],
      files = [OUTPUT_FILE \<mapsto> ''old''], stdout = []\<rparr>"

definition world_mixed :: world where
  "world_mixed =
     \<lparr>dir_exists = True, dir_listing = [''a.html'', ''notes.txt''],
      files = [''src/templates/a.html'' \<mapsto> ''<p>hi</p>''], stdout = []\<rparr>"

definition world_mixed_later :: world where
  "world_mixed_later =
     \<lparr>dir_exists = True, dir_listing = [''a.html'', ''notes.txt''],
      files = [''src/templates/a.html'' \<mapsto> ''<p>hi</p>'', OUTPUT_FILE \<mapsto> ''old''],
      stdout = [''earlier'']\<rparr>"


definition world_unreadable :: world where
  "world_unreadable =
     \<lparr>dir_exists = True, dir_listing = [''a.html'', ''b.html''],
      files = [''src/templates/a.html'' \<mapsto> ''<p>hi</p>'', OUTPUT_FILE \<mapsto> ''old''],
      stdout = []\<rparr>"

text \<open>
  File names a POSIX directory can hold: one with a double quote in it, one that ends the
  literal, writes an arm of its own and starts the next line, and one that is not UTF-8
  (the byte E9, an accented e in Latin-1), between two templates with plain names.
\<close>

definition quote_name :: string where
  "quote_name = ''a'' @ [dquote] @ ''b.html''"

definition world_quote :: world where
  "world_quote =
     \<lparr>dir_exists = True, dir_listing = [quote_name],
      files = [path_join TEMPLATE_DIR quote_name \<mapsto> ''hi''], stdout = []\<rparr>"

definition inject_name :: string where
  "inject_name =
     ''a'' @ [dquote] @ '' => return '' @ [dquote] @ ''x'' @ [dquote, newline]
       @ ''    '' @ [dquote] @ ''b.html''"

definition world_inject :: world where
  "world_inject =
     \<lparr>dir_exists = True, dir_listing = [inject_name],
      files = [path_join TEMPLATE_DIR inject_name \<mapsto> ''hi''], stdout = []\<rparr>"

definition latin1_name :: string where
  "latin1_name = [CHR 0xE9] @ ''.html''"

definition world_latin1 :: world where
  "world_latin1 =
     \<lparr>dir_exists = True, dir_listing = [''a.html'', latin1_name, ''c.html''],
      files = [''src/templates/a.html'' \<mapsto> ''<p>hi</p>'',
               path_join TEMPLATE_DIR latin1_name \<mapsto> ''x'',
               ''src/templates/c.html'' \<mapsto> ''y'',
               OUTPUT_FILE \<mapsto> ''old''],
      stdout = []\<rparr>"

section \<open>Properties of the escaping transform\<close>

lemma chars_distinct [simp]:
  "bslash \<noteq> dquote" "dquote \<noteq> bslash"
  "bslash \<noteq> newline" "newline \<noteq> bslash"
  "bslash \<noteq> letter_n" "letter_n \<noteq> bslash"
  "dquote \<noteq> newline" "newline \<noteq> dquote"
  "dquote \<noteq> letter_n" "letter_n \<noteq> dquote"
  "newline \<noteq> letter_n" "letter_n \<noteq> newline"
  by (simp_all add: bslash_def dquote_def newline_def letter_n_def)

lemma str_replace_Nil [simp]: "old \<noteq> [] \<Longrightarrow> str_replace old new [] = []"
  by (simp add: str_replace.simps)

lemma str_replace_single_Cons:
  "str_replace [c] new (x # xs) =
     (if x = c then new else [x]) @ str_replace [c] new xs"
  by (subst str_replace.simps) simp

lemma str_replace_single:
  "str_replace [c] new s = concat (map (\<lambda>x. if x = c then new else [x]) s)"
  by (induction s) (simp_all add: str_replace_single_Cons)

lemma str_replace_single_append:
  "str_replace [c] new (s @ t) = str_replace [c] new s @ str_replace [c] new t"
  by (simp add: str_replace_single)

lemma escape_content_Nil [simp]: "escape_content [] = []"
  by (simp add: escape_content_def)

lemma escape_content_append:
  "escape_content (s @ t) = escape_content s @ escape_content t"
  by (simp add: escape_content_def str_replace_single_append)

lemma escape_content_single: "escape_content [c] = escape_char c"
  by (simp add: escape_content_def escape_char_def str_replace_single)

lemma escape_content_Cons [simp]:
  "escape_content (c # s) = escape_char c @ escape_content s"
  using escape_content_append [of "[c]" s] by (simp add: escape_content_single)

lemma escape_content_concat_map: "escape_content s = concat (map escape_char s)"
  by (induction s) simp_all

lemma unescape_plain: "c \<noteq> bslash \<Longrightarrow> unescape (c # r) = c # unescape r"
  by (cases r) simp_all

lemma unescape_escape: "unescape (escape_content s) = s"
  by (induction s) (simp_all add: escape_char_def unescape_plain)

lemma escape_content_inj: "(escape_content s = escape_content t) = (s = t)"
proof
  assume "escape_content s = escape_content t"
  then have "unescape (escape_content s) = unescape (escape_content t)"
    by simp
  then show "s = t"
    by (simp add: unescape_escape)
next
  assume "s = t"
  then show "escape_content s = escape_content t"
    by simp
qed

lemma escape_content_plain:
  "bslash \<notin> set s \<Longrightarrow> dquote \<notin> set s \<Longrightarrow> newline \<notin> set s \<Longrightarrow> escape_content s = s"
  by (induction s) (auto simp add: escape_char_def)

lemma escape_backslash_last_dquote:
  "escape_backslash_last [dquote] = [bslash, bslash, dquote]"
  by (simp add: escape_backslash_last_def str_replace_single)

section \<open>Properties of UTF-8 validity\<close>

lemma special_codes:
  "(of_char bslash :: nat) = 0x5C" "(of_char dquote :: nat) = 0x22"
  "(of_char newline :: nat) = 0x0A" "(of_char letter_n :: nat) = 0x6E"
  by (simp_all add: bslash_def dquote_def newline_def letter_n_def)

lemma escape_char_high:
  "\<not> (of_char c :: nat) < 0x80 \<Longrightarrow> escape_char c = [c]"
  using special_codes by (auto simp add: escape_char_def)

lemma continuation_high: "continuation c \<Longrightarrow> \<not> (of_char c :: nat) < 0x80"
  by (simp add: continuation_def)

lemma second_of_three_high: "second_of_three c c1 \<Longrightarrow> \<not> (of_char c1 :: nat) < 0x80"
  by (auto simp add: second_of_three_def continuation_def split: if_splits)

lemma second_of_four_high: "second_of_four c c1 \<Longrightarrow> \<not> (of_char c1 :: nat) < 0x80"
  by (auto simp add: second_of_four_def continuation_def split: if_splits)

lemma utf8_valid_ascii_Cons:
  "(of_char c :: nat) < 0x80 \<Longrightarrow> utf8_valid (c # r) = utf8_valid r"
  by simp

lemma utf8_valid_ascii_append:
  "(\<And>c. c \<in> set a \<Longrightarrow> (of_char c :: nat) < 0x80) \<Longrightarrow> utf8_valid (a @ b) = utf8_valid b"
  by (induction a) simp_all

lemma utf8_valid_append:
  "utf8_valid a \<Longrightarrow> utf8_valid b \<Longrightarrow> utf8_valid (a @ b)"
  by (induction a rule: utf8_valid.induct) (auto split: if_splits list.splits)

lemma escape_char_ascii:
  "(of_char c :: nat) < 0x80 \<Longrightarrow> d \<in> set (escape_char c) \<Longrightarrow> (of_char d :: nat) < 0x80"
  using special_codes by (auto simp add: escape_char_def split: if_splits)

lemma utf8_valid_escape:
  "utf8_valid s \<Longrightarrow> utf8_valid (escape_content s)"
proof (induction s rule: utf8_valid.induct)
  case 1
  then show ?case by simp
next
  case (2 c r)
  show ?case
  proof (cases "(of_char c :: nat) < 0x80")
    case True
    with 2 have "utf8_valid (escape_content r)" by simp
    with True show ?thesis
      by (simp add: utf8_valid_ascii_append escape_char_ascii del: utf8_valid.simps)
  next
    case False
    with 2 show ?thesis
      by (auto simp add: escape_char_high continuation_high second_of_three_high
          second_of_four_high split: if_splits list.splits)
  qed
qed

lemma utf8_valid_entry_line:
  assumes "utf8_valid f" "utf8_valid c"
  shows "utf8_valid (entry_line f c @ [newline])"
proof -
  have a: "utf8_valid (''    '' @ [dquote])" "utf8_valid ([dquote] @ '' => return '' @ [dquote])"
    "utf8_valid [dquote, newline]"
    by (simp_all add: dquote_def newline_def)
  have "entry_line f c @ [newline] =
      (''    '' @ [dquote]) @ f @ ([dquote] @ '' => return '' @ [dquote]) @ c @ [dquote, newline]"
    by (simp add: entry_line_def)
  then show ?thesis
    using a assms by (simp only: utf8_valid_append)
qed

lemma text_pieces_valid:
  "utf8_valid header_text" "utf8_valid match_text" "utf8_valid fallback_text"
  "utf8_valid close_match_text" "utf8_valid close_fn_text"
  by (simp_all add: header_text_def match_text_def fallback_text_def close_match_text_def
      close_fn_text_def newline_def dquote_def)

section \<open>Properties of the generator\<close>

subsection \<open>The two loops and \<^verbatim>\<open>main\<close>\<close>

lemma and_then_None [simp]: "and_then (None, out) k = k out"
  by (simp add: and_then_def)

lemma and_then_Some [simp]: "and_then (Some e, out) k = (Some e, out)"
  by (simp add: and_then_def)

lemma out_write_valid: "utf8_valid s \<Longrightarrow> out_write out s = (None, out @ s)"
  by (simp add: out_write_def)

lemma out_write_invalid:
  "\<not> utf8_valid s \<Longrightarrow> out_write out s = (Some (UnicodeEncodeError s), out)"
  by (simp add: out_write_def)

lemma write_entries_ok:
  "(\<And>l. l \<in> set es \<Longrightarrow> utf8_valid (l @ [newline]))
   \<Longrightarrow> write_entries out es = (None, out @ concat (map (\<lambda>l. l @ [newline]) es))"
  by (induction es arbitrary: out) (simp_all add: out_write_valid)

lemma write_entries_fail:
  assumes "\<And>l. l \<in> set es \<Longrightarrow> utf8_valid (l @ [newline])" "\<not> utf8_valid (bad @ [newline])"
  shows "write_entries out (es @ bad # rest) =
           (Some (UnicodeEncodeError (bad @ [newline])), out @ concat (map (\<lambda>l. l @ [newline]) es))"
  using assms by (induction es arbitrary: out) (simp_all add: out_write_valid out_write_invalid)

lemma write_output_ok:
  assumes "\<And>l. l \<in> set es \<Longrightarrow> utf8_valid (l @ [newline])"
  shows "write_output es = (None, generated_text es)"
  using write_entries_ok [OF assms]
  by (simp add: write_output_def generated_text_def out_write_valid text_pieces_valid)

lemma write_output_fail:
  assumes "\<And>l. l \<in> set es \<Longrightarrow> utf8_valid (l @ [newline])" "\<not> utf8_valid (bad @ [newline])"
  shows "write_output (es @ bad # rest) =
           (Some (UnicodeEncodeError (bad @ [newline])),
            header_text @ match_text @ concat (map (\<lambda>l. l @ [newline]) es))"
  using write_entries_fail [OF assms]
  by (simp add: write_output_def out_write_valid text_pieces_valid)

lemma write_output_Nil: "write_output [] = (None, generated_text [])"
  by (rule write_output_ok) simp

lemma read_entries_filter:
  "read_entries fs listing acc = read_entries fs (filter (\<lambda>f. endswith f ''.html'') listing) acc"
  by (induction listing arbitrary: acc) (simp_all add: Let_def split: option.splits)

lemma read_entries_ok:
  "(\<And>f. f \<in> set listing \<Longrightarrow> endswith f ''.html'' \<Longrightarrow> fs (path_join TEMPLATE_DIR f) = Some (raw f))
   \<Longrightarrow> read_entries fs listing acc =
       Inr (acc @ map (\<lambda>f. entry_line f (escape_content (raw f)))
                   (filter (\<lambda>f. endswith f ''.html'') listing))"
  by (induction listing arbitrary: acc) (simp_all add: Let_def)

lemma read_entries_fail:
  "f \<in> set listing \<Longrightarrow> endswith f ''.html'' \<Longrightarrow> fs (path_join TEMPLATE_DIR f) = None
   \<Longrightarrow> \<exists>g. g \<in> set listing \<and> endswith g ''.html'' \<and> fs (path_join TEMPLATE_DIR g) = None
         \<and> read_entries fs listing acc = Inl (FileReadError (path_join TEMPLATE_DIR g))"
proof (induction listing arbitrary: acc)
  case Nil
  then show ?case by simp
next
  case (Cons a listing)
  show ?case
  proof (cases "endswith a ''.html''")
    case False
    with Cons.prems have "f \<in> set listing" by auto
    from Cons.IH [OF this Cons.prems(2,3), of acc] False show ?thesis
      by auto
  next
    case True
    show ?thesis
    proof (cases "fs (path_join TEMPLATE_DIR a)")
      case None
      with True show ?thesis by (auto simp add: Let_def)
    next
      case (Some raw)
      with Cons.prems have "f \<in> set listing" by auto
      from Cons.IH [OF this Cons.prems(2,3), of "acc @ [entry_line a (escape_content raw)]"] True Some
      show ?thesis by (auto simp add: Let_def)
    qed
  qed
qed

lemma read_entries_cong:
  "(\<And>f. f \<in> set listing \<Longrightarrow> endswith f ''.html'' \<Longrightarrow> fs (path_join TEMPLATE_DIR f) = fs' (path_join TEMPLATE_DIR f))
   \<Longrightarrow> read_entries fs listing acc = read_entries fs' listing acc"
  by (induction listing arbitrary: acc) (simp_all add: Let_def split: option.splits)

lemma endswith_append: "endswith s suf \<Longrightarrow> \<exists>p. s = p @ suf"
  unfolding endswith_def by (metis append_take_drop_id)

lemma template_path_not_output:
  assumes "endswith f ''.html''"
  shows "path_join TEMPLATE_DIR f \<noteq> OUTPUT_FILE"
proof -
  from assms obtain p where f: "f = p @ ''.html''"
    using endswith_append by blast
  have "last (path_join TEMPLATE_DIR f) = CHR ''l''"
    by (simp add: path_join_def f)
  moreover have "last OUTPUT_FILE = CHR ''t''"
    by (simp add: OUTPUT_FILE_def)
  ultimately show ?thesis by auto
qed



lemma main_ok:
  assumes "dir_exists w"
    and "\<And>f. f \<in> set (dir_listing w) \<Longrightarrow> endswith f ''.html''
           \<Longrightarrow> files w (path_join TEMPLATE_DIR f) = Some (raw f)"
    and "\<And>f. f \<in> set (dir_listing w) \<Longrightarrow> endswith f ''.html''
           \<Longrightarrow> utf8_valid f \<and> utf8_valid (raw f)"
  shows "main w =
     (Returned,
      w\<lparr>files := (files w)(OUTPUT_FILE \<mapsto>
            generated_text (map (\<lambda>f. entry_line f (escape_content (raw f)))
              (filter (\<lambda>f. endswith f ''.html'') (dir_listing w)))),
        stdout := stdout w @
          [generated_message (length (filter (\<lambda>f. endswith f ''.html'') (dir_listing w)))]\<rparr>)"
proof -
  have "read_entries (files w) (dir_listing w) [] =
      Inr ([] @ map (\<lambda>f. entry_line f (escape_content (raw f)))
                   (filter (\<lambda>f. endswith f ''.html'') (dir_listing w)))"
    using assms(2) by (rule read_entries_ok)
  moreover have "write_output (map (\<lambda>f. entry_line f (escape_content (raw f)))
                   (filter (\<lambda>f. endswith f ''.html'') (dir_listing w)))
      = (None, generated_text (map (\<lambda>f. entry_line f (escape_content (raw f)))
                   (filter (\<lambda>f. endswith f ''.html'') (dir_listing w))))"
    using assms(3) by (intro write_output_ok) (auto simp add: utf8_valid_entry_line utf8_valid_escape)
  ultimately show ?thesis
    using assms(1) by (simp add: main_def)
qed

lemma main_missing:
  "\<not> dir_exists w \<Longrightarrow> main w = (Returned, w\<lparr>stdout := stdout w @ [not_found_message]\<rparr>)"
  by (simp add: main_def)

lemma main_raised:
  assumes "dir_exists w" "f \<in> set (dir_listing w)" "endswith f ''.html''"
    "files w (path_join TEMPLATE_DIR f) = None"
  shows "\<exists>g. g \<in> set (dir_listing w) \<and> endswith g ''.html''
            \<and> files w (path_join TEMPLATE_DIR g) = None
            \<and> main w = (Raised (FileReadError (path_join TEMPLATE_DIR g)), w)"
proof -
  from read_entries_fail [of f "dir_listing w" "files w" "[]"] assms(2,3,4)
  obtain g where "g \<in> set (dir_listing w)" "endswith g ''.html''"
    "files w (path_join TEMPLATE_DIR g) = None"
    "read_entries (files w) (dir_listing w) [] = Inl (FileReadError (path_join TEMPLATE_DIR g))"
    by blast
  with assms(1) show ?thesis
    by (auto simp add: main_def)
qed

lemma not_found_message_text:
  "not_found_message = '' Folder '' @ [CHR 0x27] @ ''src/templates'' @ [CHR 0x27] @ '' not found.''"
  by (simp add: not_found_message_def TEMPLATE_DIR_def)

subsection \<open>The reader on the generated text\<close>

lemma split_lines_not_Nil: "split_lines s \<noteq> []"
  by (induction s) (simp_all split: list.splits)

lemma split_lines_line:
  "newline \<notin> set l \<Longrightarrow> split_lines (l @ newline # rest) = l # split_lines rest"
  by (induction l) auto

lemma split_lines_lines:
  "(\<And>l. l \<in> set ls \<Longrightarrow> newline \<notin> set l)
   \<Longrightarrow> split_lines (concat (map (\<lambda>l. l @ [newline]) ls) @ rest) = ls @ split_lines rest"
  by (induction ls) (simp_all add: split_lines_line)

lemma read_literal_plain:
  "dquote \<notin> set v \<Longrightarrow> bslash \<notin> set v \<Longrightarrow> read_literal (v @ dquote # rest) = Some (v, rest)"
  by (induction v) auto

lemma read_literal_escape:
  "read_literal (escape_content c @ dquote # rest) = Some (c, rest)"
  by (induction c) (simp_all add: escape_char_def)

lemma newline_notin_escape: "newline \<notin> set (escape_content c)"
  by (induction c) (simp_all add: escape_char_def)

lemma newline_notin_entry_line:
  "newline \<notin> set f \<Longrightarrow> newline \<notin> set (entry_line f (escape_content c))"
proof -
  assume "newline \<notin> set f"
  moreover have "newline \<notin> set ''    ''" "newline \<notin> set '' => return ''"
    by (simp_all add: newline_def)
  ultimately show ?thesis
    using newline_notin_escape [of c] by (simp add: entry_line_def)
qed

lemma read_arm_entry:
  "plain_name f \<Longrightarrow> read_arm (entry_line f (escape_content c)) = Some (f, c)"
  by (simp add: read_arm_def entry_line_def strip_prefix_def plain_name_def
      read_literal_plain read_literal_escape)

lemma those_map_Some: "those (map (\<lambda>x. Some (g x)) xs) = Some (map g xs)"
  by (induction xs) simp_all

lemma header_line: "header_text = butlast header_text @ [newline]" "newline \<notin> set (butlast header_text)"
  by (simp_all add: header_text_def newline_def)

lemma match_line: "match_text = butlast match_text @ [newline]" "newline \<notin> set (butlast match_text)"
  by (simp_all add: match_text_def newline_def)

lemma fallback_line: "fallback_text = butlast fallback_text @ [newline]" "newline \<notin> set (butlast fallback_text)"
  by (simp_all add: fallback_text_def newline_def dquote_def butlast_append)

lemma close_match_line: "close_match_text = butlast close_match_text @ [newline]" "newline \<notin> set (butlast close_match_text)"
  by (simp_all add: close_match_text_def newline_def)

lemma close_fn_line: "close_fn_text = butlast close_fn_text @ [newline]" "newline \<notin> set (butlast close_fn_text)"
  by (simp_all add: close_fn_text_def newline_def)

lemma split_lines_closing:
  "split_lines (fallback_text @ close_match_text @ close_fn_text) = closing_lines"
proof -
  have "split_lines (fallback_text @ close_match_text @ close_fn_text)
      = split_lines (butlast fallback_text @ newline # butlast close_match_text @ newline
          # butlast close_fn_text @ newline # [])"
    using fallback_line(1) close_match_line(1) close_fn_line(1)
    by (metis append_Cons append_Nil append_assoc)
  also have "\<dots> = closing_lines"
    by (simp add: split_lines_line fallback_line(2) close_match_line(2) close_fn_line(2)
        closing_lines_def)
  finally show ?thesis .
qed

lemma split_lines_generated_text:
  assumes "\<And>l. l \<in> set es \<Longrightarrow> newline \<notin> set l"
  shows "split_lines (generated_text es)
           = butlast header_text # butlast match_text # es @ closing_lines"
proof -
  have "generated_text es =
      butlast header_text @ newline # butlast match_text @ newline #
        (concat (map (\<lambda>l. l @ [newline]) es) @ (fallback_text @ close_match_text @ close_fn_text))"
    unfolding generated_text_def using header_line(1) match_line(1)
    by (metis append_Cons append_Nil append_assoc)
  then show ?thesis
    by (simp add: split_lines_line header_line(2) match_line(2) split_lines_lines assms
        split_lines_closing)
qed

lemma read_function_lines:
  assumes "split_lines text = butlast header_text # butlast match_text # es @ closing_lines"
  shows "read_function text = those (map read_arm es)"
  using assms by (simp add: read_function_def)

lemma read_function_generated_text:
  assumes "\<And>f. f \<in> set names \<Longrightarrow> plain_name f"
  shows "read_function (generated_text (map (\<lambda>f. entry_line f (escape_content (raw f))) names))
           = Some (map (\<lambda>f. (f, raw f)) names)"
proof -
  let ?es = "map (\<lambda>f. entry_line f (escape_content (raw f))) names"
  have "\<And>l. l \<in> set ?es \<Longrightarrow> newline \<notin> set l"
    using assms by (auto simp add: plain_name_def newline_notin_entry_line)
  then have "read_function (generated_text ?es) = those (map read_arm ?es)"
    by (intro read_function_lines split_lines_generated_text)
  also have "map read_arm ?es = map (\<lambda>f. Some (f, raw f)) names"
    using assms by (simp add: read_arm_entry)
  finally show ?thesis
    by (simp add: those_map_Some)
qed

lemma run_match_map:
  "run_match (map (\<lambda>f. (f, raw f)) names) name =
     (if name \<in> set names then Inr (raw name)
      else Inl (RenderError (''Template not found: '' @ name)))"
  by (induction names) auto

subsection \<open>Runs of \<^verbatim>\<open>main\<close> as a whole\<close>

text \<open>
  Names that do not end with \<^verbatim>\<open>.html\<close> are skipped by the first loop, so a run on the
  listing without them ends the same way.
\<close>

lemma main_filter_listing:
  "fst (main (w\<lparr>dir_listing := filter (\<lambda>f. endswith f ''.html'') (dir_listing w)\<rparr>)) = fst (main w)
   \<and> files (snd (main (w\<lparr>dir_listing := filter (\<lambda>f. endswith f ''.html'') (dir_listing w)\<rparr>)))
       = files (snd (main w))
   \<and> stdout (snd (main (w\<lparr>dir_listing := filter (\<lambda>f. endswith f ''.html'') (dir_listing w)\<rparr>)))
       = stdout (snd (main w))"
proof -
  have "read_entries (files w) (filter (\<lambda>f. endswith f ''.html'') (dir_listing w)) []
      = read_entries (files w) (dir_listing w) []"
    by (rule read_entries_filter [symmetric])
  then show ?thesis
    by (simp add: main_def split: sum.splits prod.splits option.splits)
qed

text \<open>
  A template's path ends with \<^verbatim>\<open>.html\<close> and the output file's does not, so writing
  the output changes nothing a later run reads.
\<close>

lemma main_twice_output:
  "files (snd (main (snd (main w)))) OUTPUT_FILE = files (snd (main w)) OUTPUT_FILE
   \<and> fst (main (snd (main w))) = fst (main w)"
proof (cases "dir_exists w")
  case False
  then show ?thesis by (simp add: main_def)
next
  case True
  show ?thesis
  proof (cases "read_entries (files w) (dir_listing w) []")
    case (Inl e)
    with True show ?thesis by (simp add: main_def)
  next
    case (Inr entries)
    obtain problem out where written: "write_output entries = (problem, out)"
      by (cases "write_output entries")
    have "read_entries ((files w)(OUTPUT_FILE \<mapsto> out)) (dir_listing w) []
        = read_entries (files w) (dir_listing w) []"
      by (rule read_entries_cong) (simp add: template_path_not_output)
    with True Inr written show ?thesis
      by (cases problem) (simp_all add: main_def)
  qed
qed

lemma main_same_source:
  assumes "dir_exists w1" "dir_exists w2" "dir_listing w1 = dir_listing w2"
    and "\<And>f. f \<in> set (dir_listing w1) \<Longrightarrow> endswith f ''.html''
          \<Longrightarrow> files w1 (path_join TEMPLATE_DIR f) = files w2 (path_join TEMPLATE_DIR f)"
  shows "fst (main w1) = fst (main w2)"
    and "fst (main w1) = Returned \<Longrightarrow> files (snd (main w1)) OUTPUT_FILE = files (snd (main w2)) OUTPUT_FILE"
proof -
  have eq: "read_entries (files w1) (dir_listing w1) [] = read_entries (files w2) (dir_listing w2) []"
    unfolding assms(3) [symmetric] using assms(4) by (rule read_entries_cong)
  show "fst (main w1) = fst (main w2)"
    using assms(1,2) eq by (simp add: main_def split: sum.splits prod.splits option.splits)
  show "fst (main w1) = Returned \<Longrightarrow> files (snd (main w1)) OUTPUT_FILE = files (snd (main w2)) OUTPUT_FILE"
    using assms(1,2) eq by (simp add: main_def split: sum.splits prod.splits option.splits)
qed

lemma main_output_text:
  assumes "dir_exists w"
    and "\<And>f. f \<in> set (dir_listing w) \<Longrightarrow> endswith f ''.html''
           \<Longrightarrow> files w (path_join TEMPLATE_DIR f) = Some (raw f)"
    and "\<And>f. f \<in> set (dir_listing w) \<Longrightarrow> endswith f ''.html''
           \<Longrightarrow> utf8_valid f \<and> utf8_valid (raw f)"
  shows "fst (main w) = Returned"
    and "files (snd (main w)) OUTPUT_FILE =
      Some (header_text @ match_text
        @ concat (map (\<lambda>f. entry_line f (escape_content (raw f)) @ [newline])
            (filter (\<lambda>f. endswith f ''.html'') (dir_listing w)))
        @ fallback_text @ close_match_text @ close_fn_text)"
    and "stdout (snd (main w)) = stdout w @
          [generated_message (length (filter (\<lambda>f. endswith f ''.html'') (dir_listing w)))]"
  using main_ok [OF assms] by (simp_all add: generated_text_def comp_def)

text \<open>
  A name that is not UTF-8 ends the run in the second loop: the file is left with the
  header, the match opening and the arms written before, without the fallback arm, and
  the last message is not printed.
\<close>

lemma ascii_not_continuation: "(of_char c :: nat) < 0x80 \<Longrightarrow> \<not> continuation c"
  by (simp add: continuation_def)

lemma ascii_not_second_of_three: "(of_char c :: nat) < 0x80 \<Longrightarrow> \<not> second_of_three c0 c"
  using second_of_three_high by blast

lemma ascii_not_second_of_four: "(of_char c :: nat) < 0x80 \<Longrightarrow> \<not> second_of_four c0 c"
  using second_of_four_high by blast

lemma utf8_valid_before_ascii:
  "utf8_valid (a @ c # r) \<Longrightarrow> (of_char c :: nat) < 0x80 \<Longrightarrow> utf8_valid a"
proof (induction a rule: utf8_valid.induct)
  case 1
  show ?case by simp
next
  case (2 c0 r0)
  note ascii = ascii_not_continuation [OF "2.prems"(2)]
    ascii_not_second_of_three [OF "2.prems"(2)] ascii_not_second_of_four [OF "2.prems"(2)]
  show ?case
  proof (cases "(of_char c0 :: nat) < 0x80")
    case True
    with "2.prems" "2.IH"(1) show ?thesis by simp
  next
    case one: False
    show ?thesis
    proof (cases "0xC2 \<le> (of_char c0 :: nat) \<and> (of_char c0 :: nat) \<le> 0xDF")
      case True
      show ?thesis
      proof (cases r0)
        case Nil
        with one True "2.prems" ascii show ?thesis by simp
      next
        case (Cons c1 r1)
        with one True "2.prems" "2.IH"(2) [of c1 r1] show ?thesis by simp
      qed
    next
      case two: False
      show ?thesis
      proof (cases "0xE0 \<le> (of_char c0 :: nat) \<and> (of_char c0 :: nat) \<le> 0xEF")
        case True
        show ?thesis
        proof (cases r0)
          case Nil
          with one two True "2.prems" ascii show ?thesis by (simp split: list.splits)
        next
          case r0: (Cons c1 r1)
          show ?thesis
          proof (cases r1)
            case Nil
            with r0 one two True "2.prems" ascii show ?thesis by simp
          next
            case (Cons c2 r2)
            with r0 one two True "2.prems" "2.IH"(3) [of c1 r1 c2 r2] show ?thesis by simp
          qed
        qed
      next
        case three: False
        show ?thesis
        proof (cases "0xF0 \<le> (of_char c0 :: nat) \<and> (of_char c0 :: nat) \<le> 0xF4")
          case False
          with one two three "2.prems"(1) show ?thesis by (auto split: if_splits)
        next
          case True
          show ?thesis
          proof (cases r0)
            case Nil
            with one two three True "2.prems" ascii show ?thesis by (simp split: list.splits)
          next
            case r0: (Cons c1 r1)
            show ?thesis
            proof (cases r1)
              case Nil
              with r0 one two three True "2.prems" ascii show ?thesis by (simp split: list.splits)
            next
              case r1: (Cons c2 r2)
              show ?thesis
              proof (cases r2)
                case Nil
                with r0 r1 one two three True "2.prems" ascii show ?thesis by simp
              next
                case (Cons c3 r3)
                with r0 r1 one two three True "2.prems" "2.IH"(4) [of c1 r1 c2 r2 c3 r3]
                show ?thesis by simp
              qed
            qed
          qed
        qed
      qed
    qed
  qed
qed

lemma entry_line_invalid:
  assumes "\<not> utf8_valid f"
  shows "\<not> utf8_valid (entry_line f c @ [newline])"
proof
  assume "utf8_valid (entry_line f c @ [newline])"
  then have "utf8_valid ((''    '' @ [dquote]) @ f @ dquote # ('' => return '' @ [dquote] @ c @ [dquote, newline]))"
    by (simp add: entry_line_def)
  then have "utf8_valid (f @ dquote # ('' => return '' @ [dquote] @ c @ [dquote, newline]))"
    by (subst (asm) utf8_valid_ascii_append) (auto simp add: dquote_def)
  then have "utf8_valid f"
    by (rule utf8_valid_before_ascii) (simp add: special_codes)
  with assms show False by simp
qed

lemma main_write_raises:
  assumes "dir_exists w"
    and "\<And>f. f \<in> set (dir_listing w) \<Longrightarrow> endswith f ''.html''
           \<Longrightarrow> files w (path_join TEMPLATE_DIR f) = Some (raw f)"
    and "filter (\<lambda>f. endswith f ''.html'') (dir_listing w) = good @ bad # rest"
    and "\<And>f. f \<in> set good \<Longrightarrow> utf8_valid f \<and> utf8_valid (raw f)"
    and "\<not> utf8_valid bad"
  shows "main w =
     (Raised (UnicodeEncodeError (entry_line bad (escape_content (raw bad)) @ [newline])),
      w\<lparr>files := (files w)(OUTPUT_FILE \<mapsto>
            header_text @ match_text
              @ concat (map (\<lambda>f. entry_line f (escape_content (raw f)) @ [newline]) good))\<rparr>)"
proof -
  let ?line = "\<lambda>f. entry_line f (escape_content (raw f))"
  have "read_entries (files w) (dir_listing w) [] =
      Inr ([] @ map ?line (filter (\<lambda>f. endswith f ''.html'') (dir_listing w)))"
    using assms(2) by (rule read_entries_ok)
  then have entries: "read_entries (files w) (dir_listing w) [] = Inr (map ?line good @ ?line bad # map ?line rest)"
    by (simp add: assms(3))
  have "write_output (map ?line good @ ?line bad # map ?line rest) =
      (Some (UnicodeEncodeError (?line bad @ [newline])),
       header_text @ match_text @ concat (map (\<lambda>l. l @ [newline]) (map ?line good)))"
    using assms(4,5)
    by (intro write_output_fail) (auto simp add: utf8_valid_entry_line utf8_valid_escape entry_line_invalid)
  with entries assms(1) show ?thesis
    by (simp add: main_def comp_def)
qed

lemma main_latin1:
  "fst (main world_latin1) =
     Raised (UnicodeEncodeError (entry_line latin1_name ''x'' @ [newline]))
   \<and> files (snd (main world_latin1)) OUTPUT_FILE =
       Some (header_text @ match_text @ entry_line ''a.html'' ''<p>hi</p>'' @ [newline])
   \<and> stdout (snd (main world_latin1)) = []"
  by code_simp

text \<open>
  When every template's name is UTF-8 and holds no double quote, backslash or newline,
  and every content read is UTF-8 as \<^verbatim>\<open>read\<close> returns it, the text written
  reads as a function definition with one arm per template, in the order of the listing;
  each arm holds the file name and, unescaped again, the content that was read. A call of
  that function returns the content for a template's name and raises the not-found error,
  with the name in its message, for every other name.
\<close>

lemma main_read_function:
  assumes "dir_exists w"
    and "\<And>f. f \<in> set (dir_listing w) \<Longrightarrow> endswith f ''.html''
           \<Longrightarrow> files w (path_join TEMPLATE_DIR f) = Some (raw f)"
    and "\<And>f. f \<in> set (dir_listing w) \<Longrightarrow> endswith f ''.html''
           \<Longrightarrow> utf8_valid f \<and> utf8_valid (raw f)"
    and "\<And>f. f \<in> set (dir_listing w) \<Longrightarrow> endswith f ''.html'' \<Longrightarrow> plain_name f"
  shows "\<exists>out. files (snd (main w)) OUTPUT_FILE = Some out
           \<and> read_function out =
               Some (map (\<lambda>f. (f, raw f)) (filter (\<lambda>f. endswith f ''.html'') (dir_listing w)))"
proof -
  have "\<And>f. f \<in> set (filter (\<lambda>f. endswith f ''.html'') (dir_listing w)) \<Longrightarrow> plain_name f"
    using assms(4) by simp
  from read_function_generated_text [of "filter (\<lambda>f. endswith f ''.html'') (dir_listing w)" raw, OF this]
    main_ok [OF assms(1,2,3)]
  show ?thesis by simp
qed

lemma main_load_template:
  assumes "dir_exists w"
    and "\<And>f. f \<in> set (dir_listing w) \<Longrightarrow> endswith f ''.html''
           \<Longrightarrow> files w (path_join TEMPLATE_DIR f) = Some (raw f)"
    and "\<And>f. f \<in> set (dir_listing w) \<Longrightarrow> endswith f ''.html''
           \<Longrightarrow> utf8_valid f \<and> utf8_valid (raw f)"
    and "\<And>f. f \<in> set (dir_listing w) \<Longrightarrow> endswith f ''.html'' \<Longrightarrow> plain_name f"
  shows "\<exists>out. files (snd (main w)) OUTPUT_FILE = Some out
           \<and> load_template out name =
               Some (if name \<in> set (dir_listing w) \<and> endswith name ''.html'' then Inr (raw name)
                     else Inl (RenderError (''Template not found: '' @ name)))"
proof -
  from main_read_function [OF assms] obtain out where
    "files (snd (main w)) OUTPUT_FILE = Some out"
    "read_function out =
       Some (map (\<lambda>f. (f, raw f)) (filter (\<lambda>f. endswith f ''.html'') (dir_listing w)))"
    by blast
  then show ?thesis
    by (auto simp add: load_template_def run_match_map)
qed

lemma plain_name_a_html: "plain_name ''a.html''"
  by (simp add: plain_name_def dquote_def bslash_def newline_def)

lemma read_function_one_arm:
  "plain_name f \<Longrightarrow>
   read_function (header_text @ match_text @ entry_line f (escape_content c) @ [newline]
       @ fallback_text @ close_match_text @ close_fn_text) = Some [(f, c)]"
  using read_function_generated_text [of "[f]" "\<lambda>_. c"]
  by (simp add: generated_text_def)

subsection \<open>The claims about \<^verbatim>\<open>escape_content\<close>\<close>

text \<open>
  C1. For every text \<open>s\<close>, unescaping the escaped text gives \<open>s\<close> back, whatever mixture
  of backslashes, double quotes and newlines \<open>s\<close> holds; so \<open>escape_content\<close> is
  injective: two texts have the same escaped form only when they are the same text. The
  last conjunct is the spec's example, the text a, backslash, double quote, newline, b.
\<close>

theorem escape_content_roundtrip:
  "unescape (escape_content s) = s
   \<and> ((escape_content s = escape_content t) = (s = t))
   \<and> escape_content (''a'' @ [bslash, dquote, newline] @ ''b'')
       = ''a'' @ [bslash, bslash, bslash, dquote, bslash, letter_n] @ ''b''
   \<and> unescape (''a'' @ [bslash, bslash, bslash, dquote, bslash, letter_n] @ ''b'')
       = ''a'' @ [bslash, dquote, newline] @ ''b''"
proof -
  have example_esc: "escape_content (''a'' @ [bslash, dquote, newline] @ ''b'')
      = ''a'' @ [bslash, bslash, bslash, dquote, bslash, letter_n] @ ''b''"
    by (simp add: escape_char_def bslash_def dquote_def newline_def letter_n_def)
  have "unescape (escape_content (''a'' @ [bslash, dquote, newline] @ ''b''))
      = ''a'' @ [bslash, dquote, newline] @ ''b''"
    by (rule unescape_escape)
  then have example_back: "unescape (''a'' @ [bslash, bslash, bslash, dquote, bslash, letter_n] @ ''b'')
      = ''a'' @ [bslash, dquote, newline] @ ''b''"
    by (simp only: example_esc)
  show ?thesis
    using example_esc example_back by (simp only: unescape_escape escape_content_inj simp_thms)
qed

text \<open>
  C6. The transform is the three replacements of the source in the source's order:
  backslash by two backslashes, then double quote by backslash and double quote, then
  newline by backslash and the letter n. With the backslash step first, every character
  of the input contributes its own escape and nothing more: no backslash that a later
  step writes is doubled. With the backslash step last, the backslash written for a
  double quote is doubled.
\<close>

theorem escape_content_order:
  "escape_content s =
     str_replace [newline] [bslash, letter_n]
       (str_replace [dquote] [bslash, dquote]
         (str_replace [bslash] [bslash, bslash] s))
   \<and> str_replace [bslash] [bslash, bslash] s
       = concat (map (\<lambda>c. if c = bslash then [bslash, bslash] else [c]) s)
   \<and> escape_content s = concat (map escape_char s)
   \<and> escape_content [dquote] = [bslash, dquote]
   \<and> escape_content [newline] = [bslash, letter_n]
   \<and> escape_backslash_last [dquote] = [bslash, bslash, dquote]"
proof -
  have "escape_content s =
     str_replace [newline] [bslash, letter_n]
       (str_replace [dquote] [bslash, dquote]
         (str_replace [bslash] [bslash, bslash] s))"
    by (simp only: escape_content_def)
  moreover have "str_replace [bslash] [bslash, bslash] s
       = concat (map (\<lambda>c. if c = bslash then [bslash, bslash] else [c]) s)"
    by (rule str_replace_single)
  moreover have "escape_content s = concat (map escape_char s)"
    by (rule escape_content_concat_map)
  moreover have "escape_content [dquote] = [bslash, dquote]"
    by (simp add: escape_char_def)
  moreover have "escape_content [newline] = [bslash, letter_n]"
    by (simp add: escape_char_def)
  ultimately show ?thesis
    using escape_backslash_last_dquote by blast
qed

text \<open>
  C8. \<open>escape_content\<close> distributes over concatenation, and it leaves a text with no
  backslash, double quote or newline as it is; every character other than these three is
  passed through unchanged.
\<close>

theorem escape_content_homomorphism:
  "escape_content (s @ t) = escape_content s @ escape_content t
   \<and> (bslash \<notin> set u \<and> dquote \<notin> set u \<and> newline \<notin> set u \<longrightarrow> escape_content u = u)
   \<and> (c \<noteq> bslash \<and> c \<noteq> dquote \<and> c \<noteq> newline \<longrightarrow> escape_content [c] = [c])"
  by (simp add: escape_content_append escape_content_plain escape_char_def)

theorem escape_content_homomorphism_witness:
  "escape_content (''a'' @ [bslash, newline] @ ''<p>hi</p>'')
     = escape_content (''a'' @ [bslash, newline]) @ escape_content ''<p>hi</p>''
   \<and> escape_content ''<p>hi</p>'' = ''<p>hi</p>''
   \<and> escape_content [CHR ''x''] = [CHR ''x'']"
  using escape_content_homomorphism
    [of "''a'' @ [bslash, newline]" "''<p>hi</p>''" "''<p>hi</p>''" "CHR ''x''"]
  by (simp add: bslash_def dquote_def newline_def)

section \<open>The claims about \<^verbatim>\<open>main\<close>\<close>

text \<open>
  C3. When the template directory does not exist, \<^verbatim>\<open>main\<close> returns normally (it does
  not raise), every file is as it was, so the output file is neither created nor changed,
  and the one line printed says that the folder was not found.
\<close>

theorem missing_directory:
  "\<not> dir_exists w \<Longrightarrow>
     main w = (Returned, w\<lparr>stdout := stdout w @ [not_found_message]\<rparr>)
     \<and> fst (main w) = Returned
     \<and> files (snd (main w)) = files w
     \<and> stdout (snd (main w)) =
         stdout w @ ['' Folder '' @ [CHR 0x27] @ ''src/templates'' @ [CHR 0x27] @ '' not found.'']"
  by (simp add: main_missing not_found_message_text)

theorem missing_directory_witness:
  "\<not> dir_exists world_missing
   \<and> fst (main world_missing) = Returned
   \<and> files (snd (main world_missing)) OUTPUT_FILE = Some ''old''
   \<and> stdout (snd (main world_missing)) =
       ['' Folder '' @ [CHR 0x27] @ ''src/templates'' @ [CHR 0x27] @ '' not found.'']"
proof -
  have h: "\<not> dir_exists world_missing"
    by (simp add: world_missing_def)
  have "files world_missing OUTPUT_FILE = Some ''old''" "stdout world_missing = []"
    by (simp_all add: world_missing_def)
  with h missing_directory [OF h] show ?thesis
    by (simp add: not_found_message_text)
qed



text \<open>
  C10. The templates are read before the output file is opened: when one of the names
  that end with \<^verbatim>\<open>.html\<close> cannot be read, the run ends by raising, and the world is
  as it was before the run; the output file of an earlier run is untouched, and nothing
  is printed.
\<close>

theorem read_failure_keeps_output:
  assumes "dir_exists w" and "f \<in> set (dir_listing w)" and "endswith f ''.html''"
    and "files w (path_join TEMPLATE_DIR f) = None"
  shows "(\<exists>p. fst (main w) = Raised (FileReadError p)) \<and> snd (main w) = w"
  using main_raised [OF assms] by auto

theorem read_failure_keeps_output_witness:
  "dir_exists world_unreadable
   \<and> ''b.html'' \<in> set (dir_listing world_unreadable)
   \<and> endswith ''b.html'' ''.html''
   \<and> files world_unreadable (path_join TEMPLATE_DIR ''b.html'') = None
   \<and> (\<exists>p. fst (main world_unreadable) = Raised (FileReadError p))
   \<and> snd (main world_unreadable) = world_unreadable
   \<and> files (snd (main world_unreadable)) OUTPUT_FILE = Some ''old''"
proof -
  have h1: "dir_exists world_unreadable"
    and h2: "''b.html'' \<in> set (dir_listing world_unreadable)"
    by (simp_all add: world_unreadable_def)
  have h3: "endswith ''b.html'' ''.html''"
    by (simp add: endswith_def)
  have h4: "files world_unreadable (path_join TEMPLATE_DIR ''b.html'') = None"
    by (simp add: world_unreadable_def path_join_def TEMPLATE_DIR_def OUTPUT_FILE_def endswith_def)
  have "files world_unreadable OUTPUT_FILE = Some ''old''"
    by (simp add: world_unreadable_def)
  with h1 h2 h3 h4 read_failure_keeps_output [OF h1 h2 h3 h4] show ?thesis
    by simp
qed

text \<open>
  C4. Only the names that end with \<^verbatim>\<open>.html\<close> are processed. The other names of the
  listing have no effect on the run: with them removed from the listing, the outcome, the
  files and the lines printed are the same. When every template can be read and written
  (each name that ends with \<^verbatim>\<open>.html\<close> is UTF-8, as is the content that \<^verbatim>\<open>read\<close>
  returned), the text written holds one entry line per name that ends with
  \<^verbatim>\<open>.html\<close>, in the order of the listing, and nothing for any other name. For the
  directory that holds \<^verbatim>\<open>a.html\<close> and \<^verbatim>\<open>notes.txt\<close>, the text is the header, the
  match opening, the one arm for \<^verbatim>\<open>a.html\<close>, the fallback arm and the closing lines,
  and read as a function it has exactly the one arm that maps \<^verbatim>\<open>a.html\<close> to its
  content.
\<close>

theorem only_html_processed:
  "fst (main (w\<lparr>dir_listing := filter (\<lambda>f. endswith f ''.html'') (dir_listing w)\<rparr>)) = fst (main w)
   \<and> files (snd (main (w\<lparr>dir_listing := filter (\<lambda>f. endswith f ''.html'') (dir_listing w)\<rparr>)))
       = files (snd (main w))
   \<and> stdout (snd (main (w\<lparr>dir_listing := filter (\<lambda>f. endswith f ''.html'') (dir_listing w)\<rparr>)))
       = stdout (snd (main w))
   \<and> (dir_exists w
        \<and> (\<forall>f\<in>set (dir_listing w). endswith f ''.html''
              \<longrightarrow> files w (path_join TEMPLATE_DIR f) = Some (raw f)
                  \<and> utf8_valid f \<and> utf8_valid (raw f))
       \<longrightarrow> fst (main w) = Returned
           \<and> files (snd (main w)) OUTPUT_FILE =
             Some (header_text @ match_text
               @ concat (map (\<lambda>f. entry_line f (escape_content (raw f)) @ [newline])
                   (filter (\<lambda>f. endswith f ''.html'') (dir_listing w)))
               @ fallback_text @ close_match_text @ close_fn_text))
   \<and> (dir_exists w \<and> dir_listing w = [''a.html'', ''notes.txt'']
        \<and> files w (path_join TEMPLATE_DIR ''a.html'') = Some c \<and> utf8_valid c
       \<longrightarrow> fst (main w) = Returned
           \<and> files (snd (main w)) OUTPUT_FILE =
             Some (header_text @ match_text @ entry_line ''a.html'' (escape_content c) @ [newline]
               @ fallback_text @ close_match_text @ close_fn_text)
           \<and> read_function (header_text @ match_text
                 @ entry_line ''a.html'' (escape_content c) @ [newline]
                 @ fallback_text @ close_match_text @ close_fn_text) = Some [(''a.html'', c)])"
proof -
  have general: "fst (main w) = Returned
           \<and> files (snd (main w)) OUTPUT_FILE =
             Some (header_text @ match_text
               @ concat (map (\<lambda>f. entry_line f (escape_content (raw f)) @ [newline])
                   (filter (\<lambda>f. endswith f ''.html'') (dir_listing w)))
               @ fallback_text @ close_match_text @ close_fn_text)"
    if "dir_exists w" "\<forall>f\<in>set (dir_listing w). endswith f ''.html''
              \<longrightarrow> files w (path_join TEMPLATE_DIR f) = Some (raw f)
                  \<and> utf8_valid f \<and> utf8_valid (raw f)"
    using main_output_text(1,2) [of w raw] that by blast
  have example: "fst (main w) = Returned
           \<and> files (snd (main w)) OUTPUT_FILE =
             Some (header_text @ match_text @ entry_line ''a.html'' (escape_content c) @ [newline]
               @ fallback_text @ close_match_text @ close_fn_text)"
    if "dir_exists w" "dir_listing w = [''a.html'', ''notes.txt'']"
      "files w (path_join TEMPLATE_DIR ''a.html'') = Some c" "utf8_valid c"
  proof -
    have readable: "\<And>f. f \<in> set (dir_listing w) \<Longrightarrow> endswith f ''.html''
        \<Longrightarrow> files w (path_join TEMPLATE_DIR f) = Some ((\<lambda>_. c) f)"
      using that(2,3) by (auto simp add: endswith_def)
    have encodable: "\<And>f. f \<in> set (dir_listing w) \<Longrightarrow> endswith f ''.html''
        \<Longrightarrow> utf8_valid f \<and> utf8_valid ((\<lambda>_. c) f)"
      using that(2,4) by (auto simp add: endswith_def)
    from main_output_text(1,2) [OF that(1) readable encodable] show ?thesis
      by (simp add: that(2) endswith_def)
  qed
  show ?thesis
    using main_filter_listing [of w] general example read_function_one_arm [OF plain_name_a_html, of c]
    by blast
qed

theorem only_html_processed_witness:
  "dir_exists world_mixed
   \<and> dir_listing world_mixed = [''a.html'', ''notes.txt'']
   \<and> endswith ''a.html'' ''.html'' \<and> \<not> endswith ''notes.txt'' ''.html''
   \<and> files world_mixed (path_join TEMPLATE_DIR ''a.html'') = Some ''<p>hi</p>''
   \<and> utf8_valid ''a.html'' \<and> utf8_valid ''<p>hi</p>''
   \<and> fst (main world_mixed) = Returned
   \<and> files (snd (main world_mixed)) OUTPUT_FILE =
       Some (header_text @ match_text @ entry_line ''a.html'' ''<p>hi</p>'' @ [newline]
         @ fallback_text @ close_match_text @ close_fn_text)
   \<and> read_function (header_text @ match_text @ entry_line ''a.html'' ''<p>hi</p>'' @ [newline]
         @ fallback_text @ close_match_text @ close_fn_text) = Some [(''a.html'', ''<p>hi</p>'')]"
proof -
  have h1: "dir_exists world_mixed"
    and h2: "dir_listing world_mixed = [''a.html'', ''notes.txt'']"
    by (simp_all add: world_mixed_def)
  have h3: "files world_mixed (path_join TEMPLATE_DIR ''a.html'') = Some ''<p>hi</p>''"
    by (simp add: world_mixed_def path_join_def TEMPLATE_DIR_def endswith_def)
  have h5: "endswith ''a.html'' ''.html''" "\<not> endswith ''notes.txt'' ''.html''"
    by (simp_all add: endswith_def)
  have h6: "utf8_valid ''a.html''" "utf8_valid ''<p>hi</p>''"
    by simp_all
  have h4: "\<forall>f\<in>set (dir_listing world_mixed). endswith f ''.html''
         \<longrightarrow> files world_mixed (path_join TEMPLATE_DIR f) = Some ''<p>hi</p>''
             \<and> utf8_valid f \<and> utf8_valid ''<p>hi</p>''"
    using h3 h5 h6 by (simp add: h2)
  have e: "escape_content ''<p>hi</p>'' = ''<p>hi</p>''"
    by (rule escape_content_plain) (simp_all add: bslash_def dquote_def newline_def)
  from only_html_processed [of world_mixed "\<lambda>_. ''<p>hi</p>''" "''<p>hi</p>''"] h1 h2 h3 h4 h6
  have r: "fst (main world_mixed) = Returned
     \<and> files (snd (main world_mixed)) OUTPUT_FILE =
       Some (header_text @ match_text @ entry_line ''a.html'' (escape_content ''<p>hi</p>'') @ [newline]
         @ fallback_text @ close_match_text @ close_fn_text)
     \<and> read_function (header_text @ match_text
         @ entry_line ''a.html'' (escape_content ''<p>hi</p>'') @ [newline]
         @ fallback_text @ close_match_text @ close_fn_text) = Some [(''a.html'', ''<p>hi</p>'')]"
    by blast
  show ?thesis
    using h1 h2 h3 h5 h6 r unfolding e by blast
qed

text \<open>
  C7. A second run right after a first one leaves the output file as the first run left
  it, byte for byte, and ends the same way. More generally the text written depends only
  on the listing and on the content of the templates: two worlds that agree on both get
  the same output file from a run that returns.
\<close>

theorem generation_twice:
  "files (snd (main (snd (main w)))) OUTPUT_FILE = files (snd (main w)) OUTPUT_FILE
   \<and> fst (main (snd (main w))) = fst (main w)
   \<and> (dir_exists w1 \<and> dir_exists w2 \<and> dir_listing w1 = dir_listing w2
        \<and> (\<forall>f\<in>set (dir_listing w1). endswith f ''.html''
              \<longrightarrow> files w1 (path_join TEMPLATE_DIR f) = files w2 (path_join TEMPLATE_DIR f))
        \<and> fst (main w1) = Returned
       \<longrightarrow> fst (main w2) = Returned
           \<and> files (snd (main w1)) OUTPUT_FILE = files (snd (main w2)) OUTPUT_FILE)"
  using main_twice_output [of w] main_same_source [of w1 w2]
  by metis

theorem generation_twice_witness:
  "dir_exists world_mixed \<and> dir_exists world_mixed_later
   \<and> dir_listing world_mixed = dir_listing world_mixed_later
   \<and> dir_listing world_mixed = [''a.html'', ''notes.txt'']
   \<and> \<not> endswith ''notes.txt'' ''.html''
   \<and> files world_mixed (path_join TEMPLATE_DIR ''a.html'')
       = files world_mixed_later (path_join TEMPLATE_DIR ''a.html'')
   \<and> files world_mixed OUTPUT_FILE \<noteq> files world_mixed_later OUTPUT_FILE
   \<and> fst (main world_mixed) = Returned
   \<and> fst (main world_mixed_later) = Returned
   \<and> files (snd (main world_mixed)) OUTPUT_FILE = files (snd (main world_mixed_later)) OUTPUT_FILE
   \<and> files (snd (main (snd (main world_mixed)))) OUTPUT_FILE
       = files (snd (main world_mixed)) OUTPUT_FILE"
proof -
  have h1: "dir_exists world_mixed" "dir_exists world_mixed_later"
    and h2: "dir_listing world_mixed = dir_listing world_mixed_later"
    by (simp_all add: world_mixed_def world_mixed_later_def)
  have h3: "\<forall>f\<in>set (dir_listing world_mixed). endswith f ''.html''
         \<longrightarrow> files world_mixed (path_join TEMPLATE_DIR f)
             = files world_mixed_later (path_join TEMPLATE_DIR f)"
    by (simp add: world_mixed_def world_mixed_later_def path_join_def TEMPLATE_DIR_def
        OUTPUT_FILE_def endswith_def)
  have h4: "fst (main world_mixed) = Returned"
    by code_simp
  have h5: "dir_listing world_mixed = [''a.html'', ''notes.txt'']"
    and h6: "\<not> endswith ''notes.txt'' ''.html''"
    and h7: "files world_mixed (path_join TEMPLATE_DIR ''a.html'')
       = files world_mixed_later (path_join TEMPLATE_DIR ''a.html'')"
    and h8: "files world_mixed OUTPUT_FILE \<noteq> files world_mixed_later OUTPUT_FILE"
    by (simp_all add: world_mixed_def world_mixed_later_def path_join_def TEMPLATE_DIR_def
        OUTPUT_FILE_def endswith_def)
  from generation_twice [of world_mixed world_mixed world_mixed_later] h1 h2 h3 h4 h5 h6 h7 h8
  show ?thesis
    by blast
qed

text \<open>
  C2. The run at a file name with a double quote in it. The content of a template is
  escaped before it is put between double quotes; the file name is put between double
  quotes as it is. For the one template \<^verbatim>\<open>a"b.html\<close> with the content \<^verbatim>\<open>hi\<close> the run returns and
  writes the text below. The literal that should hold the file name ends behind the
  letter a, the line is not an arm, and the text is not a function definition. (For file
  names that are UTF-8 and hold no double quote, backslash or newline,
  \<open>main_read_function\<close> shows that the text is a function definition with exactly one
  arm per template, in the order of the listing, each with the file name and the
  content; for a file name that is not UTF-8, \<open>main_write_raises\<close> shows that the text
  stops before that name's arm.)
\<close>

theorem quote_in_file_name:
  "dir_listing world_quote = [quote_name]
   \<and> endswith quote_name ''.html''
   \<and> files world_quote (path_join TEMPLATE_DIR quote_name) = Some ''hi''
   \<and> fst (main world_quote) = Returned
   \<and> files (snd (main world_quote)) OUTPUT_FILE =
       Some (header_text @ match_text
         @ (''    '' @ [dquote] @ ''a'' @ [dquote] @ ''b.html'' @ [dquote] @ '' => return ''
              @ [dquote] @ ''hi'' @ [dquote] @ [newline])
         @ fallback_text @ close_match_text @ close_fn_text)
   \<and> read_literal (''a'' @ [dquote] @ ''b.html'' @ [dquote] @ '' => return ''
         @ [dquote] @ ''hi'' @ [dquote])
       = Some (''a'', ''b.html'' @ [dquote] @ '' => return '' @ [dquote] @ ''hi'' @ [dquote])
   \<and> read_arm (''    '' @ [dquote] @ ''a'' @ [dquote] @ ''b.html'' @ [dquote] @ '' => return ''
         @ [dquote] @ ''hi'' @ [dquote]) = None
   \<and> read_function (header_text @ match_text
         @ (''    '' @ [dquote] @ ''a'' @ [dquote] @ ''b.html'' @ [dquote] @ '' => return ''
              @ [dquote] @ ''hi'' @ [dquote] @ [newline])
         @ fallback_text @ close_match_text @ close_fn_text) = None"
  by code_simp

text \<open>
  C5. The run at a file name that closes the literal and goes on with a newline, and a
  call of the function that the text defines. The directory
  holds one template, and its name is not \<^verbatim>\<open>a\<close>; the text written has two arms, and the
  function it defines answers the name \<^verbatim>\<open>a\<close> with \<^verbatim>\<open>x\<close> where the fallback arm
  should have raised the not-found error. (For file names that are UTF-8 and hold no
  double quote, backslash or newline, \<open>main_load_template\<close> shows that every name that
  is not a template's gets the error with the message \<^verbatim>\<open>Template not found: \<close>
  followed by that name.)
\<close>

theorem injected_arm_answers:
  "fst (main world_inject) = Returned
   \<and> dir_listing world_inject = [inject_name]
   \<and> endswith inject_name ''.html''
   \<and> files world_inject (path_join TEMPLATE_DIR inject_name) = Some ''hi''
   \<and> ''a'' \<noteq> inject_name
   \<and> files (snd (main world_inject)) OUTPUT_FILE =
       Some (header_text @ match_text
         @ (''    '' @ [dquote] @ ''a'' @ [dquote] @ '' => return '' @ [dquote] @ ''x'' @ [dquote]
              @ [newline])
         @ (''    '' @ [dquote] @ ''b.html'' @ [dquote] @ '' => return '' @ [dquote] @ ''hi''
              @ [dquote] @ [newline])
         @ fallback_text @ close_match_text @ close_fn_text)
   \<and> load_template (header_text @ match_text
         @ (''    '' @ [dquote] @ ''a'' @ [dquote] @ '' => return '' @ [dquote] @ ''x'' @ [dquote]
              @ [newline])
         @ (''    '' @ [dquote] @ ''b.html'' @ [dquote] @ '' => return '' @ [dquote] @ ''hi''
              @ [dquote] @ [newline])
         @ fallback_text @ close_match_text @ close_fn_text) ''a'' = Some (Inr ''x'')"
  by code_simp

end
